theory Spec2Isabelle
  imports Main "HOL-Library.AList"
begin

section \<open>Python values\<close>

text \<open>
  The wrapper in \<^verbatim>\<open>scrapyd_api/wrapper.py\<close> passes Python values through: call
  arguments go into the request payload, and the parsed response body comes back
  from the HTTP delegate. The values are modelled as scalars (\<open>None\<close>, booleans,
  unbounded integers, strings), lists, and dictionaries with string keys. A
  dictionary is an association list in iteration order; its keys are distinct in
  Python, which the theorems that depend on it assume. Floats are outside the model.
\<close>

datatype scalar = SNone | SBool bool | SInt int | SStr string

datatype pyval = Atom scalar | PList "pyval list" | PDict "(string \<times> pyval) list"

abbreviation PNone :: pyval where "PNone \<equiv> Atom SNone"
abbreviation PBool :: "bool \<Rightarrow> pyval" where "PBool b \<equiv> Atom (SBool b)"
abbreviation PInt :: "int \<Rightarrow> pyval" where "PInt i \<equiv> Atom (SInt i)"
abbreviation PStr :: "string \<Rightarrow> pyval" where "PStr s \<equiv> Atom (SStr s)"

type_synonym 'v pydict = "(string \<times> 'v) list"

text \<open>\<^verbatim>\<open>d.update(other)\<close>: every entry of \<open>other\<close>, in its iteration order, is stored
  into \<open>d\<close>; an existing key keeps its position and takes the new value, a new key is
  appended.\<close>

definition dict_update :: "'v pydict \<Rightarrow> 'v pydict \<Rightarrow> 'v pydict" where
  "dict_update d other = fold (\<lambda>(k, v) acc. AList.update k v acc) other d"

text \<open>The exceptions the wrapper raises or lets through. \<open>ClientError\<close> stands for
  whatever the HTTP delegate raises; the wrapper has no \<^verbatim>\<open>except\<close> clause around the
  delegate's calls, so it reaches the caller as it is.\<close>

datatype error = ValueError string | KeyError string | TypeError | ClientError string

text \<open>\<^verbatim>\<open>json[key]\<close> with a string key: a dictionary is looked up and raises
  \<open>KeyError\<close> for an absent key; every other value raises \<open>TypeError\<close> (a list or a
  string wants integer indices, the other scalars are not subscriptable).\<close>

fun getitem :: "pyval \<Rightarrow> string \<Rightarrow> error + pyval" where
  "getitem (PDict d) key = (case map_of d key of None \<Rightarrow> Inl (KeyError key) | Some v \<Rightarrow> Inr v)"
| "getitem (PList xs) key = Inl TypeError"
| "getitem (Atom a) key = Inl TypeError"

text \<open>\<^verbatim>\<open>'{0}'.format(v)\<close> for a scalar \<open>v\<close>: a string is inserted as it is, an integer
  in decimal, \<open>True\<close>, \<open>False\<close> and \<open>None\<close> by name.\<close>

fun str_nat :: "nat \<Rightarrow> string" where
  "str_nat n = (if n < 10 then [''0123456789'' ! n]
                else str_nat (n div 10) @ [''0123456789'' ! (n mod 10)])"

declare str_nat.simps [simp del]

fun format_scalar :: "scalar \<Rightarrow> string" where
  "format_scalar SNone = ''None''"
| "format_scalar (SBool b) = (if b then ''True'' else ''False'')"
| "format_scalar (SInt i) = (if i < 0 then ''-'' @ str_nat (nat (- i)) else str_nat (nat i))"
| "format_scalar (SStr s) = s"

section \<open>URL joining\<close>

text \<open>
  Modelled from the spec: \<^verbatim>\<open>urljoin\<close> is imported from \<^verbatim>\<open>scrapyd_api/compat.py\<close>, which
  is not among the sources. The spec says the path is joined against the target
  ``using standard base+relative URL joining rules''; the definitions below are the
  reference resolution of RFC 3986: the five components of Appendix B, the
  transformation of section 5.2.2, \<open>merge\<close> of 5.2.3, \<open>remove_dot_segments\<close> of 5.2.4
  and the recomposition of 5.3.
\<close>

text \<open>Modelled from the spec: the five components of a URI reference (RFC 3986,
  section 3); an absent component is \<open>None\<close>.\<close>

record uri =
  uri_scheme :: "string option"
  uri_authority :: "string option"
  uri_path :: string
  uri_query :: "string option"
  uri_fragment :: "string option"

text \<open>Modelled from the spec: splitting a reference into its components, as the
  regular expression of RFC 3986, Appendix B, does.\<close>

definition urlsplit :: "string \<Rightarrow> uri" where
  "urlsplit u =
     (let s = takeWhile (\<lambda>c. c \<notin> set '':/?#'') u;
          r0 = dropWhile (\<lambda>c. c \<notin> set '':/?#'') u;
          has_scheme = (s \<noteq> [] \<and> take 1 r0 = '':'');
          r1 = (if has_scheme then drop 1 r0 else u);
          has_auth = (take 2 r1 = ''//'');
          a = takeWhile (\<lambda>c. c \<notin> set ''/?#'') (drop 2 r1);
          r2 = (if has_auth then dropWhile (\<lambda>c. c \<notin> set ''/?#'') (drop 2 r1) else r1);
          p = takeWhile (\<lambda>c. c \<notin> set ''?#'') r2;
          r3 = dropWhile (\<lambda>c. c \<notin> set ''?#'') r2;
          has_query = (take 1 r3 = ''?'');
          q = takeWhile (\<lambda>c. c \<noteq> CHR ''#'') (drop 1 r3);
          r4 = (if has_query then dropWhile (\<lambda>c. c \<noteq> CHR ''#'') (drop 1 r3) else r3)
      in \<lparr>uri_scheme = (if has_scheme then Some s else None),
          uri_authority = (if has_auth then Some a else None),
          uri_path = p,
          uri_query = (if has_query then Some q else None),
          uri_fragment = (if take 1 r4 = ''#'' then Some (drop 1 r4) else None)\<rparr>)"

text \<open>Modelled from the spec: removing the last segment of the output buffer and the
  \<open>/\<close> before it (RFC 3986, section 5.2.4, step 2C).\<close>

definition remove_last_segment :: "string \<Rightarrow> string" where
  "remove_last_segment out = rev (drop 1 (dropWhile (\<lambda>c. c \<noteq> CHR ''/'') (rev out)))"

text \<open>Modelled from the spec: the loop of RFC 3986, section 5.2.4, over the input
  buffer \<open>inp\<close> and the output buffer \<open>out\<close>.\<close>

function remove_dots :: "string \<Rightarrow> string \<Rightarrow> string" where
  "remove_dots inp out =
     (case inp of
        [] \<Rightarrow> out
      | c # cs \<Rightarrow>
          if take 3 inp = ''../'' then remove_dots (drop 3 inp) out
          else if take 2 inp = ''./'' then remove_dots (drop 2 inp) out
          else if take 3 inp = ''/./'' then remove_dots (drop 2 inp) out
          else if inp = ''/.'' then remove_dots ''/'' out
          else if take 4 inp = ''/../'' then remove_dots (drop 3 inp) (remove_last_segment out)
          else if inp = ''/..'' then remove_dots ''/'' (remove_last_segment out)
          else if inp = ''.'' \<or> inp = ''..'' then out
          else remove_dots (dropWhile (\<lambda>x. x \<noteq> CHR ''/'') cs)
                 (out @ c # takeWhile (\<lambda>x. x \<noteq> CHR ''/'') cs))"
  by pat_completeness auto

termination
proof (relation "measure (\<lambda>(inp, out). length inp)")
  fix inp out :: string and c :: char and cs :: string
  assume "inp = c # cs"
  have "length (dropWhile (\<lambda>x. x \<noteq> CHR ''/'') cs) \<le> length cs"
    by (rule length_dropWhile_le)
  then show "((dropWhile (\<lambda>x. x \<noteq> CHR ''/'') cs, out @ c # takeWhile (\<lambda>x. x \<noteq> CHR ''/'') cs),
               (inp, out)) \<in> measure (\<lambda>(inp, out). length inp)"
    using \<open>inp = c # cs\<close> by simp
qed auto

declare remove_dots.simps [simp del]

text \<open>Modelled from the spec: \<open>remove_dot_segments\<close> of RFC 3986, section 5.2.4.\<close>

definition remove_dot_segments :: "string \<Rightarrow> string" where
  "remove_dot_segments p = remove_dots p []"

text \<open>Modelled from the spec: \<open>merge\<close> of RFC 3986, section 5.2.3.\<close>

definition merge_paths :: "uri \<Rightarrow> string \<Rightarrow> string" where
  "merge_paths base rpath =
     (if uri_authority base \<noteq> None \<and> uri_path base = [] then CHR ''/'' # rpath
      else rev (dropWhile (\<lambda>c. c \<noteq> CHR ''/'') (rev (uri_path base))) @ rpath)"

text \<open>Modelled from the spec: the transformation of a reference \<open>r\<close> against a base
  (RFC 3986, section 5.2.2).\<close>

definition resolve :: "uri \<Rightarrow> uri \<Rightarrow> uri" where
  "resolve base r =
     (if uri_scheme r \<noteq> None then r\<lparr>uri_path := remove_dot_segments (uri_path r)\<rparr>
      else if uri_authority r \<noteq> None then
        r\<lparr>uri_scheme := uri_scheme base, uri_path := remove_dot_segments (uri_path r)\<rparr>
      else if uri_path r = [] then
        \<lparr>uri_scheme = uri_scheme base, uri_authority = uri_authority base,
         uri_path = uri_path base,
         uri_query = (if uri_query r \<noteq> None then uri_query r else uri_query base),
         uri_fragment = uri_fragment r\<rparr>
      else
        \<lparr>uri_scheme = uri_scheme base, uri_authority = uri_authority base,
         uri_path = (if take 1 (uri_path r) = ''/'' then remove_dot_segments (uri_path r)
                     else remove_dot_segments (merge_paths base (uri_path r))),
         uri_query = uri_query r,
         uri_fragment = uri_fragment r\<rparr>)"

text \<open>Modelled from the spec: the recomposition of the components (RFC 3986, section
  5.3).\<close>

definition urlunsplit :: "uri \<Rightarrow> string" where
  "urlunsplit u =
     (case uri_scheme u of None \<Rightarrow> [] | Some s \<Rightarrow> s @ '':'')
     @ (case uri_authority u of None \<Rightarrow> [] | Some a \<Rightarrow> ''//'' @ a)
     @ uri_path u
     @ (case uri_query u of None \<Rightarrow> [] | Some q \<Rightarrow> CHR ''?'' # q)
     @ (case uri_fragment u of None \<Rightarrow> [] | Some f \<Rightarrow> CHR ''#'' # f)"

text \<open>Modelled from the spec: \<^verbatim>\<open>urljoin(base, url)\<close>, joining \<open>url\<close> against \<open>base\<close> by
  the standard base+relative rules.\<close>

definition urljoin :: "string \<Rightarrow> string \<Rightarrow> string" where
  "urljoin base url = urlunsplit (resolve (urlsplit base) (urlsplit url))"

section \<open>The heap of endpoint maps\<close>

text \<open>
  \<^verbatim>\<open>constants.DEFAULT_ENDPOINTS\<close> and every instance's \<^verbatim>\<open>self.endpoints\<close> are
  dictionary objects, reached through references and mutated in place
  (\<^verbatim>\<open>self.endpoints.update(endpoints)\<close>). The heap maps an address to the dictionary
  stored there; \<open>next_addr\<close> is the first address not yet allocated.
\<close>

type_synonym addr = nat

record heap =
  cells :: "addr \<Rightarrow> string pydict"
  next_addr :: addr



section \<open>The modules the wrapper imports\<close>

text \<open>
  \<^verbatim>\<open>scrapyd_api/constants.py\<close> is not among the sources. The wrapper only reads
  names from it, so the model takes them as a parameter: the nine endpoint names,
  and the address of the default endpoint map.
\<close>

record constants =
  ADD_VERSION_ENDPOINT :: string
  CANCEL_ENDPOINT :: string
  DELETE_PROJECT_ENDPOINT :: string
  DELETE_VERSION_ENDPOINT :: string
  LIST_JOBS_ENDPOINT :: string
  LIST_PROJECTS_ENDPOINT :: string
  LIST_SPIDERS_ENDPOINT :: string
  LIST_VERSIONS_ENDPOINT :: string
  SCHEDULE_ENDPOINT :: string
  DEFAULT_ENDPOINTS :: addr

text \<open>
  The HTTP delegate. The wrapper calls \<^verbatim>\<open>client.get(url, params=...)\<close> and
  \<^verbatim>\<open>client.post(url, data=..., files=...)\<close>; an argument it leaves out is \<open>None\<close>. The
  delegate answers a request with the parsed body or raises; what it answers may
  depend on its \<open>auth\<close> attribute, which the constructor sets on the default client.
\<close>

datatype http_request =
  GET string "pyval pydict option"
| POST string "pyval pydict" "pyval pydict option"

record client =
  auth :: "(string \<times> string) option"
  respond :: "(string \<times> string) option \<Rightarrow> http_request \<Rightarrow> error + pyval"

text \<open>An operation's outcome: the requests it sent to the delegate, in order, and
  the value it returned or the exception it raised.\<close>

type_synonym 'a outcome = "http_request list \<times> (error + 'a)"

definition client_get :: "client \<Rightarrow> string \<Rightarrow> pyval pydict option \<Rightarrow> pyval outcome" where
  "client_get c url params = ([GET url params], respond c (auth c) (GET url params))"

definition client_post ::
  "client \<Rightarrow> string \<Rightarrow> pyval pydict \<Rightarrow> pyval pydict option \<Rightarrow> pyval outcome" where
  "client_post c url data files = ([POST url data files], respond c (auth c) (POST url data files))"

text \<open>Modelled from the spec: \<^verbatim>\<open>iteritems\<close> comes from \<^verbatim>\<open>scrapyd_api/compat.py\<close>, which
  is not among the sources. The spec has each entry of the settings mapping
  serialized, in the mapping's iteration order.\<close>

definition iteritems :: "'v pydict \<Rightarrow> (string \<times> 'v) list" where
  "iteritems d = d"

section \<open>ScrapydAPI\<close>

record api =
  target :: string
  client :: client
  endpoints :: addr

text \<open>\<^verbatim>\<open>__init__(self, target='http://localhost:6800', auth=None, endpoints=None,
  client=None)\<close>. \<open>None\<close> for \<open>target'\<close> is the argument left out; \<open>Client\<close> is the
  object \<^verbatim>\<open>Client()\<close> constructs (\<^verbatim>\<open>scrapyd_api/client.py\<close> is not among the sources).\<close>



text \<open>The exception of \<^verbatim>\<open>_build_url\<close>:
  \<^verbatim>\<open>ValueError('Unknown endpoint `{0}`'.format(endpoint))\<close>.\<close>

definition unknown_endpoint :: "string \<Rightarrow> error" where
  "unknown_endpoint endpoint = ValueError (''Unknown endpoint `'' @ endpoint @ ''`'')"

definition build_url :: "heap \<Rightarrow> api \<Rightarrow> string \<Rightarrow> error + string" where
  "build_url h self endpoint =
     (case map_of (cells h (endpoints self)) endpoint of
        None \<Rightarrow> Inl (unknown_endpoint endpoint)
      | Some path \<Rightarrow> Inr (urljoin (target self) path))"

definition add_version ::
  "constants \<Rightarrow> heap \<Rightarrow> api \<Rightarrow> pyval \<Rightarrow> pyval \<Rightarrow> pyval \<Rightarrow> pyval outcome" where
  "add_version constants h self project version egg =
     (case build_url h self (ADD_VERSION_ENDPOINT constants) of
        Inl e \<Rightarrow> ([], Inl e)
      | Inr url \<Rightarrow>
          (let data = [(''project'', project), (''version'', version)];
               files = [(''egg'', egg)];
               (calls, r) = client_post (client self) url data (Some files)
           in (calls, case r of Inl e \<Rightarrow> Inl e | Inr json \<Rightarrow> getitem json ''spiders'')))"

definition cancel :: "constants \<Rightarrow> heap \<Rightarrow> api \<Rightarrow> pyval \<Rightarrow> pyval \<Rightarrow> pyval outcome" where
  "cancel constants h self project job =
     (case build_url h self (CANCEL_ENDPOINT constants) of
        Inl e \<Rightarrow> ([], Inl e)
      | Inr url \<Rightarrow>
          (let data = [(''project'', project), (''job'', job)];
               (calls, r) = client_post (client self) url data None
           in (calls, case r of
                        Inl e \<Rightarrow> Inl e
                      | Inr json \<Rightarrow>
                          (case getitem json ''prevstate'' of
                             Inl e \<Rightarrow> Inl e
                           | Inr v \<Rightarrow> Inr (PBool (if v = PStr ''running'' then True else False))))))"

definition delete_project :: "constants \<Rightarrow> heap \<Rightarrow> api \<Rightarrow> pyval \<Rightarrow> pyval outcome" where
  "delete_project constants h self project =
     (case build_url h self (DELETE_PROJECT_ENDPOINT constants) of
        Inl e \<Rightarrow> ([], Inl e)
      | Inr url \<Rightarrow>
          (let data = [(''project'', project)];
               (calls, r) = client_post (client self) url data None
           in (calls, case r of Inl e \<Rightarrow> Inl e | Inr json \<Rightarrow> Inr (PBool True))))"

definition delete_version ::
  "constants \<Rightarrow> heap \<Rightarrow> api \<Rightarrow> pyval \<Rightarrow> pyval \<Rightarrow> pyval outcome" where
  "delete_version constants h self project version =
     (case build_url h self (DELETE_VERSION_ENDPOINT constants) of
        Inl e \<Rightarrow> ([], Inl e)
      | Inr url \<Rightarrow>
          (let data = [(''project'', project), (''version'', version)];
               (calls, r) = client_post (client self) url data None
           in (calls, case r of Inl e \<Rightarrow> Inl e | Inr json \<Rightarrow> Inr (PBool True))))"

definition list_jobs :: "constants \<Rightarrow> heap \<Rightarrow> api \<Rightarrow> pyval \<Rightarrow> pyval outcome" where
  "list_jobs constants h self project =
     (case build_url h self (LIST_JOBS_ENDPOINT constants) of
        Inl e \<Rightarrow> ([], Inl e)
      | Inr url \<Rightarrow>
          (let params = [(''project'', project)];
               (calls, r) = client_get (client self) url (Some params)
           in (calls, case r of Inl e \<Rightarrow> Inl e | Inr jobs \<Rightarrow> Inr jobs)))"

definition list_projects :: "constants \<Rightarrow> heap \<Rightarrow> api \<Rightarrow> pyval outcome" where
  "list_projects constants h self =
     (case build_url h self (LIST_PROJECTS_ENDPOINT constants) of
        Inl e \<Rightarrow> ([], Inl e)
      | Inr url \<Rightarrow>
          (let (calls, r) = client_get (client self) url None
           in (calls, case r of Inl e \<Rightarrow> Inl e | Inr json \<Rightarrow> getitem json ''projects'')))"

definition list_spiders :: "constants \<Rightarrow> heap \<Rightarrow> api \<Rightarrow> pyval \<Rightarrow> pyval outcome" where
  "list_spiders constants h self project =
     (case build_url h self (LIST_SPIDERS_ENDPOINT constants) of
        Inl e \<Rightarrow> ([], Inl e)
      | Inr url \<Rightarrow>
          (let params = [(''project'', project)];
               (calls, r) = client_get (client self) url (Some params)
           in (calls, case r of Inl e \<Rightarrow> Inl e | Inr json \<Rightarrow> getitem json ''spiders'')))"

definition list_versions :: "constants \<Rightarrow> heap \<Rightarrow> api \<Rightarrow> pyval \<Rightarrow> pyval outcome" where
  "list_versions constants h self project =
     (case build_url h self (LIST_VERSIONS_ENDPOINT constants) of
        Inl e \<Rightarrow> ([], Inl e)
      | Inr url \<Rightarrow>
          (let params = [(''project'', project)];
               (calls, r) = client_get (client self) url (Some params)
           in (calls, case r of Inl e \<Rightarrow> Inl e | Inr json \<Rightarrow> getitem json ''versions'')))"

text \<open>The loop of \<open>schedule\<close> over the settings: each entry appends
  \<^verbatim>\<open>'{0}={1}'.format(setting_name, value)\<close> to \<open>setting_params\<close>. Setting names are
  strings and setting values are scalars.\<close>

fun setting_loop :: "(string \<times> scalar) list \<Rightarrow> pyval list \<Rightarrow> pyval list" where
  "setting_loop [] setting_params = setting_params"
| "setting_loop ((setting_name, value) # rest) setting_params =
     setting_loop rest (setting_params @ [PStr (setting_name @ ''='' @ format_scalar value)])"

text \<open>The body of \<^verbatim>\<open>schedule(self, project, spider, settings=None, **kwargs)\<close>, on
  the bound arguments. \<^verbatim>\<open>if settings:\<close> is false for \<open>None\<close> and for the empty
  dictionary.\<close>

definition schedule ::
  "constants \<Rightarrow> heap \<Rightarrow> api \<Rightarrow> pyval \<Rightarrow> pyval \<Rightarrow> scalar pydict option \<Rightarrow> pyval pydict \<Rightarrow>
   pyval outcome" where
  "schedule constants h self project spider settings kwargs =
     (case build_url h self (SCHEDULE_ENDPOINT constants) of
        Inl e \<Rightarrow> ([], Inl e)
      | Inr url \<Rightarrow>
          (let data = [(''project'', project), (''spider'', spider)];
               data = dict_update data kwargs;
               data = (case settings of
                         None \<Rightarrow> data
                       | Some s \<Rightarrow>
                           if s = [] then data
                           else AList.update ''setting'' (PList (setting_loop (iteritems s) [])) data);
               (calls, r) = client_post (client self) url data None
           in (calls, case r of Inl e \<Rightarrow> Inl e | Inr json \<Rightarrow> getitem json ''jobid'')))"

text \<open>
  The call \<^verbatim>\<open>self.schedule(project, spider, settings, **kw)\<close>. Python binds the
  arguments before the body runs: \<open>self\<close>, \<open>project\<close>, \<open>spider\<close> and \<open>settings\<close> are
  filled by position, so a keyword of \<open>kw\<close> with one of these names gives the
  parameter a second value and the call raises \<open>TypeError\<close>; every other keyword is
  collected into \<open>kwargs\<close>.
\<close>

definition schedule_call ::
  "constants \<Rightarrow> heap \<Rightarrow> api \<Rightarrow> pyval \<Rightarrow> pyval \<Rightarrow> scalar pydict option \<Rightarrow> pyval pydict \<Rightarrow>
   pyval outcome" where
  "schedule_call constants h self project spider settings kw =
     (if list_ex (\<lambda>(k, v). k \<in> set [''self'', ''project'', ''spider'', ''settings'']) kw
      then ([], Inl TypeError)
      else schedule constants h self project spider settings kw)"


section \<open>Vocabulary of the theorems, and concrete instances\<close>

text \<open>\<open>answers self out body\<close>: the operation whose outcome is \<open>out\<close> sent exactly one
  request, and the delegate of \<open>self\<close> answers that request with \<open>body\<close>.\<close>

definition answers :: "api \<Rightarrow> pyval outcome \<Rightarrow> pyval \<Rightarrow> bool" where
  "answers self out body =
     (case fst out of
        [req] \<Rightarrow> respond (client self) (auth (client self)) req = Inr body
      | _ \<Rightarrow> False)"

text \<open>A concrete module of constants, a heap holding a default endpoint map at
  address 0 and a map without any of the nine names at address 1, a delegate that
  answers every request with a given body, and two instances: \<open>api0\<close> on the default
  map, \<open>api_other\<close> on the other.\<close>

definition consts0 :: constants where
  "consts0 = \<lparr>ADD_VERSION_ENDPOINT = ''add_version'', CANCEL_ENDPOINT = ''cancel'',
     DELETE_PROJECT_ENDPOINT = ''delete_project'', DELETE_VERSION_ENDPOINT = ''delete_version'',
     LIST_JOBS_ENDPOINT = ''list_jobs'', LIST_PROJECTS_ENDPOINT = ''list_projects'',
     LIST_SPIDERS_ENDPOINT = ''list_spiders'', LIST_VERSIONS_ENDPOINT = ''list_versions'',
     SCHEDULE_ENDPOINT = ''schedule'', DEFAULT_ENDPOINTS = 0\<rparr>"

definition defaults0 :: "string pydict" where
  "defaults0 =
     [(''add_version'', ''addversion.json''), (''cancel'', ''cancel.json''),
      (''delete_project'', ''delproject.json''), (''delete_version'', ''delversion.json''),
      (''list_jobs'', ''listjobs.json''), (''list_projects'', ''listprojects.json''),
      (''list_spiders'', ''listspiders.json''), (''list_versions'', ''listversions.json''),
      (''schedule'', ''schedule.json'')]"

definition heap0 :: heap where
  "heap0 = \<lparr>cells = (\<lambda>a. if a = 0 then defaults0 else []), next_addr = 1\<rparr>"

definition heap1 :: heap where
  "heap1 = \<lparr>cells = (\<lambda>a. if a = 0 then defaults0
                        else if a = 1 then [(''daemon_status'', ''daemonstatus.json'')] else []),
            next_addr = 2\<rparr>"

definition client0 :: "pyval \<Rightarrow> client" where
  "client0 body = \<lparr>auth = None, respond = (\<lambda>a req. Inr body)\<rparr>"

definition api0 :: "pyval \<Rightarrow> api" where
  "api0 body = \<lparr>target = ''http://host:6800'', client = client0 body, endpoints = 0\<rparr>"

definition api_other :: "pyval \<Rightarrow> api" where
  "api_other body = \<lparr>target = ''http://host:6800'', client = client0 body, endpoints = 1\<rparr>"


text \<open>The form data that \<open>schedule\<close> builds before it calls the delegate
  (\<^verbatim>\<open>wrapper.py\<close>, lines 148 to 157), so that a theorem can name the request sent.\<close>

definition schedule_data ::
  "pyval \<Rightarrow> pyval \<Rightarrow> scalar pydict option \<Rightarrow> pyval pydict \<Rightarrow> pyval pydict" where
  "schedule_data project spider settings kwargs =
     (let data = [(''project'', project), (''spider'', spider)];
          data = dict_update data kwargs
      in case settings of
           None \<Rightarrow> data
         | Some s \<Rightarrow>
             if s = [] then data
             else AList.update ''setting'' (PList (setting_loop (iteritems s) [])) data)"

text \<open>\<open>is_decimal ds n\<close>: the string \<open>ds\<close> is the decimal numeral of \<open>n\<close>: digits
  only, no leading zero, and its value read from the left is \<open>n\<close>.\<close>

definition digits_value :: "string \<Rightarrow> nat" where
  "digits_value ds = foldl (\<lambda>acc c. 10 * acc + (of_char c - 48)) 0 ds"

definition is_decimal :: "string \<Rightarrow> nat \<Rightarrow> bool" where
  "is_decimal ds n \<longleftrightarrow>
     ds \<noteq> [] \<and> list_all (\<lambda>c. c \<in> set ''0123456789'') ds
     \<and> (hd ds = CHR ''0'' \<longrightarrow> ds = ''0'') \<and> digits_value ds = n"

text \<open>A response body with three listings, none of them sorted, one with a
  duplicate.\<close>

definition listing0 :: pyval where
  "listing0 =
     PDict [(''status'', PStr ''ok''),
            (''projects'', PList [PStr ''b'', PStr ''a'', PStr ''b'']),
            (''spiders'', PList [PStr ''zeta'', PStr ''alpha'']),
            (''versions'', PList [PStr ''r2'', PStr ''r10'', PStr ''r1''])]"

section \<open>Dictionaries, the settings loop, the heap\<close>

lemma setting_loop_map:
  "setting_loop xs acc = acc @ map (\<lambda>(n, v). PStr (n @ ''='' @ format_scalar v)) xs"
  by (induction xs acc rule: setting_loop.induct) simp_all

lemma map_of_fold_update:
  "distinct (map fst other) \<Longrightarrow>
   map_of (fold (\<lambda>(k, v) acc. AList.update k v acc) other d) k =
     (case map_of other k of Some v \<Rightarrow> Some v | None \<Rightarrow> map_of d k)"
proof (induction other arbitrary: d)
  case Nil
  then show ?case by simp
next
  case (Cons p ps)
  obtain k' v' where p: "p = (k', v')" by (cases p)
  from Cons.prems p have notin: "k' \<notin> fst ` set ps" and dist: "distinct (map fst ps)"
    by auto
  from notin have none: "map_of ps k' = None"
    by (simp add: map_of_eq_None_iff)
  show ?case
    using Cons.IH [OF dist, of "AList.update k' v' d"] p none
    by (auto simp: update_conv' split: option.splits)
qed

lemma map_of_dict_update:
  "distinct (map fst other) \<Longrightarrow>
   map_of (dict_update d other) k =
     (case map_of other k of Some v \<Rightarrow> Some v | None \<Rightarrow> map_of d k)"
  unfolding dict_update_def by (rule map_of_fold_update)


lemma update_append_fresh:
  "k \<notin> fst ` set d \<Longrightarrow> AList.update k v (d @ r) = d @ AList.update k v r"
  by (induction d) auto

lemma fold_update_append_fresh:
  "\<forall>k \<in> fst ` set other. k \<notin> fst ` set d \<Longrightarrow>
   fold (\<lambda>(k, v) acc. AList.update k v acc) other (d @ r) =
     d @ fold (\<lambda>(k, v) acc. AList.update k v acc) other r"
proof (induction other arbitrary: r)
  case Nil
  then show ?case by simp
next
  case (Cons p ps)
  obtain k v where p: "p = (k, v)" by (cases p)
  with Cons.prems have fresh: "k \<notin> fst ` set d" and rest: "\<forall>k \<in> fst ` set ps. k \<notin> fst ` set d"
    by auto
  show ?case
    using Cons.IH [OF rest, of "AList.update k v r"] p
    by (simp add: update_append_fresh [OF fresh])
qed


lemma schedule_request:
  assumes "build_url h self (SCHEDULE_ENDPOINT constants) = Inr url"
  shows "fst (schedule constants h self project spider settings kwargs) =
           [POST url
              (let data = dict_update [(''project'', project), (''spider'', spider)] kwargs
               in case settings of
                    None \<Rightarrow> data
                  | Some s \<Rightarrow>
                      if s = [] then data
                      else AList.update ''setting'' (PList (setting_loop (iteritems s) [])) data)
              None]"
    and "respond (client self) (auth (client self))
           (POST url
              (let data = dict_update [(''project'', project), (''spider'', spider)] kwargs
               in case settings of
                    None \<Rightarrow> data
                  | Some s \<Rightarrow>
                      if s = [] then data
                      else AList.update ''setting'' (PList (setting_loop (iteritems s) [])) data)
              None) = Inr body
         \<Longrightarrow> snd (schedule constants h self project spider settings kwargs) = getitem body ''jobid''"
  using assms by (simp_all add: schedule_def client_post_def Let_def)

lemma map_of_schedule_data:
  assumes "distinct (map fst kwargs)"
  shows "map_of (dict_update [(''project'', project), (''spider'', spider)] kwargs) k =
           (case map_of kwargs k of
              Some v \<Rightarrow> Some v
            | None \<Rightarrow> map_of [(''project'', project), (''spider'', spider)] k)"
  by (rule map_of_dict_update [OF assms])

lemma schedule_data_prefix:
  assumes fresh: "\<forall>k \<in> fst ` set kwargs. k \<noteq> ''project'' \<and> k \<noteq> ''spider''"
  shows "dict_update [(''project'', project), (''spider'', spider)] kwargs =
           [(''project'', project), (''spider'', spider)] @ dict_update [] kwargs"
proof -
  have "\<forall>k \<in> fst ` set kwargs. k \<notin> fst ` set [(''project'', project), (''spider'', spider)]"
    using fresh by simp
  from fold_update_append_fresh [OF this, of "[]"] show ?thesis
    by (simp add: dict_update_def)
qed

lemma build_url_schedule0:
  "build_url heap0 (api0 body) (SCHEDULE_ENDPOINT consts0) = Inr ''http://host:6800/schedule.json''"
  by code_simp

section \<open>Decimal numerals, and the outcome of each operation\<close>

lemma digit_nth:
  assumes "k < 10"
  shows "''0123456789'' ! k \<in> set ''0123456789''"
    and "of_char (''0123456789'' ! k) = (48 + k :: nat)"
    and "0 < k \<Longrightarrow> ''0123456789'' ! k \<noteq> CHR ''0''"
proof -
  from assms have "k = 0 \<or> k = 1 \<or> k = 2 \<or> k = 3 \<or> k = 4 \<or> k = 5 \<or> k = 6 \<or> k = 7 \<or> k = 8 \<or> k = 9"
    by arith
  then show "''0123456789'' ! k \<in> set ''0123456789''"
    and "of_char (''0123456789'' ! k) = (48 + k :: nat)"
    and "0 < k \<Longrightarrow> ''0123456789'' ! k \<noteq> CHR ''0''"
    by auto
qed

lemma str_nat_nonempty: "str_nat n \<noteq> []"
  by (subst str_nat.simps) simp

lemma str_nat_digits: "list_all (\<lambda>c. c \<in> set ''0123456789'') (str_nat n)"
proof (induction n rule: str_nat.induct)
  case (1 n)
  show ?case
  proof (cases "n < 10")
    case True
    then show ?thesis
      using digit_nth(1) [of n] by (subst str_nat.simps) simp
  next
    case False
    then show ?thesis
      using "1.IH" digit_nth(1) [of "n mod 10"] by (subst str_nat.simps) simp
  qed
qed

lemma digits_value_snoc: "digits_value (ds @ [c]) = 10 * digits_value ds + (of_char c - 48)"
  by (simp add: digits_value_def)

lemma digits_value_str_nat: "digits_value (str_nat n) = n"
proof (induction n rule: str_nat.induct)
  case (1 n)
  show ?case
  proof (cases "n < 10")
    case True
    then show ?thesis
      using digit_nth(2) [of n] by (subst str_nat.simps) (simp add: digits_value_def)
  next
    case False
    then show ?thesis
      using "1.IH" digit_nth(2) [of "n mod 10"]
      by (subst str_nat.simps) (simp add: digits_value_snoc)
  qed
qed

lemma str_nat_no_leading_zero: "0 < n \<Longrightarrow> hd (str_nat n) \<noteq> CHR ''0''"
proof (induction n rule: str_nat.induct)
  case (1 n)
  show ?case
  proof (cases "n < 10")
    case True
    then show ?thesis
      using digit_nth(3) [of n] "1.prems" by (subst str_nat.simps) simp
  next
    case False
    then have "0 < n div 10" by simp
    with False "1.IH" have "hd (str_nat (n div 10)) \<noteq> CHR ''0''" by simp
    with False show ?thesis
      by (subst str_nat.simps) (simp add: str_nat_nonempty)
  qed
qed

lemma str_nat_zero: "str_nat 0 = ''0''"
  by (subst str_nat.simps) simp

lemma str_nat_decimal: "is_decimal (str_nat n) n"
proof (cases "n = 0")
  case True
  then show ?thesis
    by (simp add: is_decimal_def str_nat_zero digits_value_def)
next
  case False
  then show ?thesis
    using str_nat_no_leading_zero [of n] str_nat_digits [of n]
    by (simp add: is_decimal_def str_nat_nonempty digits_value_str_nat)
qed

lemma format_int_decimal:
  "\<exists>ds. format_scalar (SInt i) = (if i < 0 then ''-'' else []) @ ds \<and> is_decimal ds (nat \<bar>i\<bar>)"
proof (cases "i < 0")
  case True
  then have "nat (- i) = nat \<bar>i\<bar>" by simp
  with True show ?thesis
    using str_nat_decimal [of "nat (- i)"] by auto
next
  case False
  then have "nat i = nat \<bar>i\<bar>" by simp
  with False show ?thesis
    using str_nat_decimal [of "nat i"] by auto
qed

lemma getitem_not_mapping: "(\<forall>d. body \<noteq> PDict d) \<Longrightarrow> getitem body key = Inl TypeError"
  by (cases body) simp_all

lemma schedule_outcome:
  assumes "build_url h self (SCHEDULE_ENDPOINT constants) = Inr url"
  shows "schedule constants h self project spider settings kwargs =
           ([POST url (schedule_data project spider settings kwargs) None],
            case respond (client self) (auth (client self))
                   (POST url (schedule_data project spider settings kwargs) None) of
              Inl e \<Rightarrow> Inl e
            | Inr json \<Rightarrow> getitem json ''jobid'')"
  using assms by (simp add: schedule_def schedule_data_def client_post_def Let_def)

lemma add_version_outcome:
  assumes "build_url h self (ADD_VERSION_ENDPOINT constants) = Inr url_add"
  shows "add_version constants h self project version egg =
           ([POST url_add [(''project'', project), (''version'', version)] (Some [(''egg'', egg)])],
            case respond (client self) (auth (client self))
                   (POST url_add [(''project'', project), (''version'', version)] (Some [(''egg'', egg)])) of
              Inl e \<Rightarrow> Inl e
            | Inr json \<Rightarrow> getitem json ''spiders'')"
  using assms by (simp add: add_version_def client_post_def Let_def)

lemma cancel_outcome:
  assumes "build_url h self (CANCEL_ENDPOINT constants) = Inr url_cancel"
  shows "cancel constants h self project job =
           ([POST url_cancel [(''project'', project), (''job'', job)] None],
            case respond (client self) (auth (client self))
                   (POST url_cancel [(''project'', project), (''job'', job)] None) of
              Inl e \<Rightarrow> Inl e
            | Inr json \<Rightarrow> (case getitem json ''prevstate'' of
                   Inl e \<Rightarrow> Inl e
                 | Inr v \<Rightarrow> Inr (PBool (v = PStr ''running''))))"
  using assms by (simp add: cancel_def client_post_def Let_def split: sum.splits)

lemma list_projects_outcome:
  assumes "build_url h self (LIST_PROJECTS_ENDPOINT constants) = Inr url_projects"
  shows "list_projects constants h self =
           ([GET url_projects None],
            case respond (client self) (auth (client self))
                   (GET url_projects None) of
              Inl e \<Rightarrow> Inl e
            | Inr json \<Rightarrow> getitem json ''projects'')"
  using assms by (simp add: list_projects_def client_get_def Let_def)

lemma list_spiders_outcome:
  assumes "build_url h self (LIST_SPIDERS_ENDPOINT constants) = Inr url_spiders"
  shows "list_spiders constants h self project =
           ([GET url_spiders (Some [(''project'', project)])],
            case respond (client self) (auth (client self))
                   (GET url_spiders (Some [(''project'', project)])) of
              Inl e \<Rightarrow> Inl e
            | Inr json \<Rightarrow> getitem json ''spiders'')"
  using assms by (simp add: list_spiders_def client_get_def Let_def)

lemma list_versions_outcome:
  assumes "build_url h self (LIST_VERSIONS_ENDPOINT constants) = Inr url_versions"
  shows "list_versions constants h self project =
           ([GET url_versions (Some [(''project'', project)])],
            case respond (client self) (auth (client self))
                   (GET url_versions (Some [(''project'', project)])) of
              Inl e \<Rightarrow> Inl e
            | Inr json \<Rightarrow> getitem json ''versions'')"
  using assms by (simp add: list_versions_def client_get_def Let_def)

lemma list_jobs_outcome:
  assumes "build_url h self (LIST_JOBS_ENDPOINT constants) = Inr url_jobs"
  shows "list_jobs constants h self project =
           ([GET url_jobs (Some [(''project'', project)])],
            case respond (client self) (auth (client self))
                   (GET url_jobs (Some [(''project'', project)])) of
              Inl e \<Rightarrow> Inl e
            | Inr json \<Rightarrow> Inr json)"
  using assms by (simp add: list_jobs_def client_get_def Let_def)

lemma respond_client0:
  "respond (client (api0 body)) (auth (client (api0 body))) req = Inr body"
  by (simp add: api0_def client0_def)

lemma build_url_api0:
  "build_url heap0 (api0 body) (ADD_VERSION_ENDPOINT consts0) = Inr ''http://host:6800/addversion.json''"
  "build_url heap0 (api0 body) (CANCEL_ENDPOINT consts0) = Inr ''http://host:6800/cancel.json''"
  "build_url heap0 (api0 body) (LIST_JOBS_ENDPOINT consts0) = Inr ''http://host:6800/listjobs.json''"
  "build_url heap0 (api0 body) (LIST_PROJECTS_ENDPOINT consts0) = Inr ''http://host:6800/listprojects.json''"
  "build_url heap0 (api0 body) (LIST_SPIDERS_ENDPOINT consts0) = Inr ''http://host:6800/listspiders.json''"
  "build_url heap0 (api0 body) (LIST_VERSIONS_ENDPOINT consts0) = Inr ''http://host:6800/listversions.json''"
  by code_simp+

section \<open>cancel\<close>

text \<open>
  C1. Whatever body the delegate answers with, \<open>cancel\<close> returns \<open>True\<close> exactly when
  the field \<open>prevstate\<close> of the body is the string \<open>running\<close>, and it returns \<open>False\<close>
  for every other value of \<open>prevstate\<close>.
\<close>

theorem cancel_true_iff_running:
  assumes "build_url h self (CANCEL_ENDPOINT constants) = Inr url"
    and "respond (client self) (auth (client self))
           (POST url [(''project'', project), (''job'', job)] None) = Inr body"
  shows "(snd (cancel constants h self project job) = Inr (PBool True)
            \<longleftrightarrow> getitem body ''prevstate'' = Inr (PStr ''running''))
       \<and> (\<forall>v. getitem body ''prevstate'' = Inr v \<and> v \<noteq> PStr ''running''
              \<longrightarrow> snd (cancel constants h self project job) = Inr (PBool False))"
  using assms by (auto simp: cancel_def client_post_def Let_def split: sum.splits)

text \<open>With \<open>prevstate\<close> \<open>running\<close> the result is \<open>True\<close>, with \<open>finished\<close> it is
  \<open>False\<close>.\<close>

theorem cancel_true_iff_running_witness:
  "snd (cancel consts0 heap0 (api0 (PDict [(''prevstate'', PStr ''running'')]))
          (PStr ''myproject'') (PStr ''job1'')) = Inr (PBool True)
 \<and> snd (cancel consts0 heap0 (api0 (PDict [(''prevstate'', PStr ''finished'')]))
          (PStr ''myproject'') (PStr ''job1'')) = Inr (PBool False)"
proof -
  let ?p = "PStr ''myproject''" and ?j = "PStr ''job1''"
  let ?url = "''http://host:6800/cancel.json''"
  have url: "build_url heap0 (api0 body) (CANCEL_ENDPOINT consts0) = Inr ?url" for body
    by code_simp
  have resp: "respond (client (api0 body)) (auth (client (api0 body)))
                (POST ?url [(''project'', ?p), (''job'', ?j)] None) = Inr body" for body
    by (simp add: api0_def client0_def)
  show ?thesis
    using cancel_true_iff_running [OF url [of "PDict [(''prevstate'', PStr ''running'')]"] resp]
      cancel_true_iff_running [OF url [of "PDict [(''prevstate'', PStr ''finished'')]"] resp]
    by simp
qed

section \<open>Unknown endpoints\<close>

text \<open>
  C2. For an endpoint name that the instance's endpoint map does not hold, whatever
  the target and the map's contents, URL resolution fails with a \<open>ValueError\<close> whose
  message contains the name; and every operation whose endpoint name is absent
  raises that error with no request sent to the delegate.
\<close>

theorem unknown_endpoint_fails:
  "(map_of (cells h (endpoints self)) endpoint = None \<longrightarrow>
      build_url h self endpoint = Inl (unknown_endpoint endpoint))
 \<and> (\<exists>pre suf. unknown_endpoint endpoint = ValueError (pre @ endpoint @ suf))
 \<and> (map_of (cells h (endpoints self)) (ADD_VERSION_ENDPOINT constants) = None \<longrightarrow>
      add_version constants h self project version egg =
        ([], Inl (unknown_endpoint (ADD_VERSION_ENDPOINT constants))))
 \<and> (map_of (cells h (endpoints self)) (CANCEL_ENDPOINT constants) = None \<longrightarrow>
      cancel constants h self project job =
        ([], Inl (unknown_endpoint (CANCEL_ENDPOINT constants))))
 \<and> (map_of (cells h (endpoints self)) (DELETE_PROJECT_ENDPOINT constants) = None \<longrightarrow>
      delete_project constants h self project =
        ([], Inl (unknown_endpoint (DELETE_PROJECT_ENDPOINT constants))))
 \<and> (map_of (cells h (endpoints self)) (DELETE_VERSION_ENDPOINT constants) = None \<longrightarrow>
      delete_version constants h self project version =
        ([], Inl (unknown_endpoint (DELETE_VERSION_ENDPOINT constants))))
 \<and> (map_of (cells h (endpoints self)) (LIST_JOBS_ENDPOINT constants) = None \<longrightarrow>
      list_jobs constants h self project =
        ([], Inl (unknown_endpoint (LIST_JOBS_ENDPOINT constants))))
 \<and> (map_of (cells h (endpoints self)) (LIST_PROJECTS_ENDPOINT constants) = None \<longrightarrow>
      list_projects constants h self =
        ([], Inl (unknown_endpoint (LIST_PROJECTS_ENDPOINT constants))))
 \<and> (map_of (cells h (endpoints self)) (LIST_SPIDERS_ENDPOINT constants) = None \<longrightarrow>
      list_spiders constants h self project =
        ([], Inl (unknown_endpoint (LIST_SPIDERS_ENDPOINT constants))))
 \<and> (map_of (cells h (endpoints self)) (LIST_VERSIONS_ENDPOINT constants) = None \<longrightarrow>
      list_versions constants h self project =
        ([], Inl (unknown_endpoint (LIST_VERSIONS_ENDPOINT constants))))
 \<and> (map_of (cells h (endpoints self)) (SCHEDULE_ENDPOINT constants) = None \<longrightarrow>
      schedule constants h self project spider settings kwargs =
        ([], Inl (unknown_endpoint (SCHEDULE_ENDPOINT constants))))"
proof -
  have msg: "\<exists>pre suf. unknown_endpoint endpoint = ValueError (pre @ endpoint @ suf)"
    unfolding unknown_endpoint_def by blast
  have url: "build_url h self e = Inl (unknown_endpoint e)"
    if "map_of (cells h (endpoints self)) e = None" for e
    using that by (simp add: build_url_def)
  show ?thesis
    using msg
    by (simp add: url add_version_def cancel_def delete_project_def delete_version_def
        list_jobs_def list_projects_def list_spiders_def list_versions_def schedule_def)
qed

text \<open>On an instance whose map holds only \<open>daemon_status\<close>, every operation fails
  with the message naming its endpoint, and the list of requests is empty.\<close>

theorem unknown_endpoint_fails_witness:
  "build_url heap1 (api_other PNone) ''list_jobs'' = Inl (ValueError ''Unknown endpoint `list_jobs`'')
 \<and> add_version consts0 heap1 (api_other PNone) (PStr ''p'') (PStr ''v1'') (PStr ''egg'')
      = ([], Inl (ValueError ''Unknown endpoint `add_version`''))
 \<and> cancel consts0 heap1 (api_other PNone) (PStr ''p'') (PStr ''j'')
      = ([], Inl (ValueError ''Unknown endpoint `cancel`''))
 \<and> delete_project consts0 heap1 (api_other PNone) (PStr ''p'')
      = ([], Inl (ValueError ''Unknown endpoint `delete_project`''))
 \<and> delete_version consts0 heap1 (api_other PNone) (PStr ''p'') (PStr ''v1'')
      = ([], Inl (ValueError ''Unknown endpoint `delete_version`''))
 \<and> list_jobs consts0 heap1 (api_other PNone) (PStr ''p'')
      = ([], Inl (ValueError ''Unknown endpoint `list_jobs`''))
 \<and> list_projects consts0 heap1 (api_other PNone)
      = ([], Inl (ValueError ''Unknown endpoint `list_projects`''))
 \<and> list_spiders consts0 heap1 (api_other PNone) (PStr ''p'')
      = ([], Inl (ValueError ''Unknown endpoint `list_spiders`''))
 \<and> list_versions consts0 heap1 (api_other PNone) (PStr ''p'')
      = ([], Inl (ValueError ''Unknown endpoint `list_versions`''))
 \<and> schedule consts0 heap1 (api_other PNone) (PStr ''p'') (PStr ''s'') None []
      = ([], Inl (ValueError ''Unknown endpoint `schedule`''))"
proof -
  have absent: "map_of (cells heap1 (endpoints (api_other PNone))) e = None"
    if "e \<noteq> ''daemon_status''" for e
    using that by (simp add: heap1_def api_other_def)
  show ?thesis
    using unknown_endpoint_fails [where h = heap1 and self = "api_other PNone" and constants = consts0
        and endpoint = "''list_jobs''" and project = "PStr ''p''" and version = "PStr ''v1''"
        and egg = "PStr ''egg''" and job = "PStr ''j''" and spider = "PStr ''s''"
        and settings = None and kwargs = "[]"]
    by (simp add: absent consts0_def unknown_endpoint_def)
qed

section \<open>Construction\<close>



section \<open>schedule: settings\<close>

text \<open>
  C4. For every settings mapping passed to \<open>schedule\<close>, each entry \<open>(name, value)\<close>
  becomes the string \<open>name=value\<close>, and the list of these strings, in the mapping's
  order, is the value of the form field \<open>setting\<close> of the request. A string value
  is inserted as it is, with no escaping; an integer is inserted as its decimal
  numeral, with a minus sign when negative; \<open>True\<close>, \<open>False\<close> and \<open>None\<close> are
  inserted by name. An empty mapping has no entry to send, and the form data is
  left as the keyword arguments made it.
\<close>

theorem schedule_settings_encoding:
  assumes url: "build_url h self (SCHEDULE_ENDPOINT constants) = Inr url"
  shows "\<exists>data. fst (schedule constants h self project spider (Some s) kwargs) = [POST url data None]
           \<and> (s \<noteq> [] \<longrightarrow>
                 map_of data ''setting'' =
                   Some (PList (map (\<lambda>(name, value). PStr (name @ ''='' @ format_scalar value)) s))
                 \<and> (\<forall>name value. (name, SStr value) \<in> set s \<longrightarrow>
                       (\<exists>xs. map_of data ''setting'' = Some (PList xs)
                             \<and> PStr (name @ ''='' @ value) \<in> set xs))
                 \<and> (\<forall>name i. (name, SInt i) \<in> set s \<longrightarrow>
                       (\<exists>xs ds. map_of data ''setting'' = Some (PList xs)
                             \<and> is_decimal ds (nat \<bar>i\<bar>)
                             \<and> PStr (name @ ''='' @ (if i < 0 then ''-'' else []) @ ds) \<in> set xs))
                 \<and> (\<forall>name b. (name, SBool b) \<in> set s \<longrightarrow>
                       (\<exists>xs. map_of data ''setting'' = Some (PList xs)
                             \<and> PStr (name @ ''='' @ (if b then ''True'' else ''False'')) \<in> set xs))
                 \<and> (\<forall>name. (name, SNone) \<in> set s \<longrightarrow>
                       (\<exists>xs. map_of data ''setting'' = Some (PList xs)
                             \<and> PStr (name @ ''=None'') \<in> set xs)))
           \<and> (s = [] \<longrightarrow>
                 data = dict_update [(''project'', project), (''spider'', spider)] kwargs)"
proof (cases "s = []")
  case True
  then show ?thesis
    using schedule_request(1) [OF url, of project spider "Some s" kwargs] by simp
next
  case False
  let ?enc = "\<lambda>(name, value). PStr (name @ ''='' @ format_scalar value)"
  let ?data = "AList.update ''setting'' (PList (map ?enc s))
                 (dict_update [(''project'', project), (''spider'', spider)] kwargs)"
  have req: "fst (schedule constants h self project spider (Some s) kwargs) = [POST url ?data None]"
    using schedule_request(1) [OF url, of project spider "Some s" kwargs] False
    by (simp add: iteritems_def setting_loop_map)
  have field: "map_of ?data ''setting'' = Some (PList (map ?enc s))"
    by (simp add: update_conv')
  have mem: "PStr (n @ ''='' @ format_scalar v) \<in> set (map ?enc s)" if "(n, v) \<in> set s" for n v
    using that by force
  have strs: "PStr (n @ ''='' @ v) \<in> set (map ?enc s)" if "(n, SStr v) \<in> set s" for n v
    using mem [OF that] by simp
  have ints: "\<exists>ds. is_decimal ds (nat \<bar>i\<bar>)
                \<and> PStr (n @ ''='' @ (if i < 0 then ''-'' else []) @ ds) \<in> set (map ?enc s)"
    if "(n, SInt i) \<in> set s" for n i
  proof -
    obtain ds where ds: "format_scalar (SInt i) = (if i < 0 then ''-'' else []) @ ds"
      and dec: "is_decimal ds (nat \<bar>i\<bar>)"
      using format_int_decimal [of i] by blast
    from mem [OF that] ds have "PStr (n @ ''='' @ (if i < 0 then ''-'' else []) @ ds) \<in> set (map ?enc s)"
      by simp
    with dec show ?thesis by blast
  qed
  have bools: "PStr (n @ ''='' @ (if b then ''True'' else ''False'')) \<in> set (map ?enc s)"
    if "(n, SBool b) \<in> set s" for n b
    using mem [OF that] by simp
  have nones: "PStr (n @ ''=None'') \<in> set (map ?enc s)" if "(n, SNone) \<in> set s" for n
    using mem [OF that] by simp
  have A: "\<forall>name value. (name, SStr value) \<in> set s \<longrightarrow>
              (\<exists>xs. map_of ?data ''setting'' = Some (PList xs)
                    \<and> PStr (name @ ''='' @ value) \<in> set xs)"
    using field strs by blast
  have B: "\<forall>name i. (name, SInt i) \<in> set s \<longrightarrow>
              (\<exists>xs ds. map_of ?data ''setting'' = Some (PList xs)
                    \<and> is_decimal ds (nat \<bar>i\<bar>)
                    \<and> PStr (name @ ''='' @ (if i < 0 then ''-'' else []) @ ds) \<in> set xs)"
    using field ints by blast
  have C: "\<forall>name b. (name, SBool b) \<in> set s \<longrightarrow>
              (\<exists>xs. map_of ?data ''setting'' = Some (PList xs)
                    \<and> PStr (name @ ''='' @ (if b then ''True'' else ''False'')) \<in> set xs)"
    using field bools by blast
  have D: "\<forall>name. (name, SNone) \<in> set s \<longrightarrow>
              (\<exists>xs. map_of ?data ''setting'' = Some (PList xs)
                    \<and> PStr (name @ ''=None'') \<in> set xs)"
    using field nones by blast
  show ?thesis
  proof (intro exI [of _ "?data"] conjI impI)
    show "fst (schedule constants h self project spider (Some s) kwargs) = [POST url ?data None]"
      by (rule req)
    show "map_of ?data ''setting'' =
            Some (PList (map (\<lambda>(name, value). PStr (name @ ''='' @ format_scalar value)) s))"
      by (rule field)
    show "\<forall>name value. (name, SStr value) \<in> set s \<longrightarrow>
              (\<exists>xs. map_of ?data ''setting'' = Some (PList xs)
                    \<and> PStr (name @ ''='' @ value) \<in> set xs)"
      by (rule A)
    show "\<forall>name i. (name, SInt i) \<in> set s \<longrightarrow>
              (\<exists>xs ds. map_of ?data ''setting'' = Some (PList xs)
                    \<and> is_decimal ds (nat \<bar>i\<bar>)
                    \<and> PStr (name @ ''='' @ (if i < 0 then ''-'' else []) @ ds) \<in> set xs)"
      by (rule B)
    show "\<forall>name b. (name, SBool b) \<in> set s \<longrightarrow>
              (\<exists>xs. map_of ?data ''setting'' = Some (PList xs)
                    \<and> PStr (name @ ''='' @ (if b then ''True'' else ''False'')) \<in> set xs)"
      by (rule C)
    show "\<forall>name. (name, SNone) \<in> set s \<longrightarrow>
              (\<exists>xs. map_of ?data ''setting'' = Some (PList xs)
                    \<and> PStr (name @ ''=None'') \<in> set xs)"
      by (rule D)
    show "?data = dict_update [(''project'', project), (''spider'', spider)] kwargs" if "s = []"
      using that False by simp
  qed
qed

text \<open>Settings \<open>{"DOWNLOAD_DELAY": "2"}\<close> give the field \<open>setting\<close> the string
  \<open>DOWNLOAD_DELAY=2\<close>; integers, booleans, \<open>None\<close> and a string holding \<open>=\<close> and
  spaces are rendered beside it.\<close>

theorem schedule_settings_encoding_witness:
  "\<exists>data. fst (schedule consts0 heap0 (api0 PNone) (PStr ''myproject'') (PStr ''somespider'')
                 (Some [(''DOWNLOAD_DELAY'', SStr ''2''), (''CONCURRENT_REQUESTS'', SInt 16),
                        (''DEPTH_PRIORITY'', SInt (- 1)), (''RETRY_TIMES'', SInt 0),
                        (''CLOSESPIDER_ITEMCOUNT'', SInt 1205), (''COOKIES_ENABLED'', SBool False),
                        (''ROBOTSTXT_OBEY'', SBool True), (''LOG_FILE'', SNone),
                        (''USER_AGENT'', SStr ''my bot = 1'')]) [])
             = [POST ''http://host:6800/schedule.json'' data None]
         \<and> map_of data ''setting'' =
             Some (PList [PStr ''DOWNLOAD_DELAY=2'', PStr ''CONCURRENT_REQUESTS=16'',
                          PStr ''DEPTH_PRIORITY=-1'', PStr ''RETRY_TIMES=0'',
                          PStr ''CLOSESPIDER_ITEMCOUNT=1205'', PStr ''COOKIES_ENABLED=False'',
                          PStr ''ROBOTSTXT_OBEY=True'', PStr ''LOG_FILE=None'',
                          PStr ''USER_AGENT=my bot = 1''])"
proof -
  let ?s = "[(''DOWNLOAD_DELAY'', SStr ''2''), (''CONCURRENT_REQUESTS'', SInt 16),
             (''DEPTH_PRIORITY'', SInt (- 1)), (''RETRY_TIMES'', SInt 0),
             (''CLOSESPIDER_ITEMCOUNT'', SInt 1205), (''COOKIES_ENABLED'', SBool False),
             (''ROBOTSTXT_OBEY'', SBool True), (''LOG_FILE'', SNone),
             (''USER_AGENT'', SStr ''my bot = 1'')]"
  have enc: "map (\<lambda>(name, value). PStr (name @ ''='' @ format_scalar value)) ?s =
               [PStr ''DOWNLOAD_DELAY=2'', PStr ''CONCURRENT_REQUESTS=16'',
                PStr ''DEPTH_PRIORITY=-1'', PStr ''RETRY_TIMES=0'',
                PStr ''CLOSESPIDER_ITEMCOUNT=1205'', PStr ''COOKIES_ENABLED=False'',
                PStr ''ROBOTSTXT_OBEY=True'', PStr ''LOG_FILE=None'',
                PStr ''USER_AGENT=my bot = 1'']"
    by code_simp
  have ne: "?s \<noteq> []"
    by simp
  show ?thesis
    using schedule_settings_encoding [OF build_url_schedule0,
        of PNone "PStr ''myproject''" "PStr ''somespider''" ?s "[]"]
  proof (elim exE conjE, goal_cases)
    case (1 data)
    note field = 1(2) [THEN mp, OF ne, THEN conjunct1, unfolded enc]
    from 1(1) field show ?case
      by (intro exI conjI)
  qed
qed

section \<open>schedule: extra keyword arguments\<close>

text \<open>
  C5, as the claim states it, fails: an extra keyword named \<open>setting\<close> is replaced by
  the encoded settings when a non-empty settings mapping is passed too
  (\<^verbatim>\<open>data['setting'] = setting_params\<close> runs after \<^verbatim>\<open>data.update(kwargs)\<close>). The call
  \<^verbatim>\<open>schedule('myproject', 'somespider', settings={'LOG_LEVEL': 'INFO'},
  setting='DOWNLOAD_DELAY=2')\<close> sends a payload whose \<open>setting\<close> field is the list
  holding \<open>LOG_LEVEL=INFO\<close>, not the extra entry.
\<close>

theorem schedule_extra_setting_counterexample:
  "fst (schedule consts0 heap0 (api0 (PDict [(''jobid'', PStr ''6487ec79947edab326d6db28a2d86511'')]))
         (PStr ''myproject'') (PStr ''somespider'') (Some [(''LOG_LEVEL'', SStr ''INFO'')])
         [(''setting'', PStr ''DOWNLOAD_DELAY=2'')])
     = [POST ''http://host:6800/schedule.json''
          [(''project'', PStr ''myproject''), (''spider'', PStr ''somespider''),
           (''setting'', PList [PStr ''LOG_LEVEL=INFO''])] None]
 \<and> map_of [(''project'', PStr ''myproject''), (''spider'', PStr ''somespider''),
            (''setting'', PList [PStr ''LOG_LEVEL=INFO''])] ''setting''
       \<noteq> Some (PStr ''DOWNLOAD_DELAY=2'')"
  by code_simp

text \<open>
  C5, amended. For every call of \<open>schedule\<close>, each extra keyword entry is a top-level
  form field of the request beside \<open>project\<close> and \<open>spider\<close>, except that an extra
  named \<open>setting\<close> is replaced when a non-empty settings mapping is passed; and the
  operation returns the field \<open>jobid\<close> of the body the delegate answers with.
\<close>

theorem schedule_extra_fields:
  assumes url: "build_url h self (SCHEDULE_ENDPOINT constants) = Inr url"
    and dist: "distinct (map fst kwargs)"
  shows "\<exists>data. fst (schedule constants h self project spider settings kwargs) = [POST url data None]
           \<and> (\<forall>k v. (k, v) \<in> set kwargs \<and> (k \<noteq> ''setting'' \<or> settings = None \<or> settings = Some [])
                 \<longrightarrow> map_of data k = Some v)
           \<and> map_of data ''project'' \<noteq> None
           \<and> map_of data ''spider'' \<noteq> None
           \<and> (\<forall>body. respond (client self) (auth (client self)) (POST url data None) = Inr body
                 \<longrightarrow> snd (schedule constants h self project spider settings kwargs)
                       = getitem body ''jobid'')"
proof -
  let ?base = "dict_update [(''project'', project), (''spider'', spider)] kwargs"
  let ?data = "case settings of
                 None \<Rightarrow> ?base
               | Some s \<Rightarrow>
                   if s = [] then ?base
                   else AList.update ''setting'' (PList (setting_loop (iteritems s) [])) ?base"
  have req: "fst (schedule constants h self project spider settings kwargs) = [POST url ?data None]"
    using schedule_request(1) [OF url, of project spider settings kwargs] by (simp add: Let_def)
  have res: "snd (schedule constants h self project spider settings kwargs) = getitem body ''jobid''"
    if "respond (client self) (auth (client self)) (POST url ?data None) = Inr body" for body
    using schedule_request(2) [OF url, where project = project and spider = spider
        and settings = settings and kwargs = kwargs and body = body] that
    by (simp add: Let_def)
  have base: "map_of ?base k = Some v" if "(k, v) \<in> set kwargs" for k v
    using that dist by (simp add: map_of_schedule_data)
  have other: "map_of ?data k = map_of ?base k" if "k \<noteq> ''setting'' \<or> settings = None \<or> settings = Some []"
    for k
    using that by (auto simp: update_conv' split: option.splits)
  have extra: "map_of ?data k = Some v"
    if "(k, v) \<in> set kwargs \<and> (k \<noteq> ''setting'' \<or> settings = None \<or> settings = Some [])" for k v
    using that base other by simp
  have proj: "map_of ?data ''project'' \<noteq> None" and spi: "map_of ?data ''spider'' \<noteq> None"
    using other [of "''project''"] other [of "''spider''"] dist
    by (simp_all add: map_of_schedule_data split: option.splits)
  show ?thesis
    using req res extra proj spi by blast
qed

text \<open>With the extra keyword \<open>priority=5\<close> the payload holds \<open>priority\<close>, \<open>project\<close>
  and \<open>spider\<close>, and the job identifier of the response is returned.\<close>

theorem schedule_extra_fields_witness:
  "\<exists>data. fst (schedule consts0 heap0 (api0 (PDict [(''jobid'', PStr ''6487ec79'')]))
                 (PStr ''myproject'') (PStr ''somespider'') None [(''priority'', PInt 5)])
             = [POST ''http://host:6800/schedule.json'' data None]
         \<and> map_of data ''priority'' = Some (PInt 5)
         \<and> map_of data ''project'' \<noteq> None
         \<and> map_of data ''spider'' \<noteq> None
         \<and> snd (schedule consts0 heap0 (api0 (PDict [(''jobid'', PStr ''6487ec79'')]))
                 (PStr ''myproject'') (PStr ''somespider'') None [(''priority'', PInt 5)])
             = Inr (PStr ''6487ec79'')"
proof -
  have dist: "distinct (map fst [(''priority'', PInt 5)])"
    by simp
  have resp: "respond (client (api0 body)) (auth (client (api0 body))) req = Inr body" for body req
    by (simp add: api0_def client0_def)
  show ?thesis
    using schedule_extra_fields [OF build_url_schedule0 dist,
        of "PDict [(''jobid'', PStr ''6487ec79'')]" "PStr ''myproject''" "PStr ''somespider''" None]
    by (auto simp: resp)
qed

section \<open>The list operations\<close>

text \<open>
  C6. Whatever body the delegate answers the request with, \<open>list_projects\<close>,
  \<open>list_spiders\<close> and \<open>list_versions\<close> send one GET request and return what looking
  up the field \<open>projects\<close>, \<open>spiders\<close> and \<open>versions\<close> of the body gives: for a
  mapping that holds the field, its value, unchanged. \<open>list_jobs\<close> sends one GET
  request and returns the body itself.
\<close>

theorem list_passthrough:
  "(build_url h self (LIST_PROJECTS_ENDPOINT constants) = Inr url_projects
      \<and> respond (client self) (auth (client self))
            (GET url_projects None) = Inr body
    \<longrightarrow> list_projects constants h self =
          ([GET url_projects None], getitem body ''projects'')
        \<and> (\<forall>d v. body = PDict d \<and> map_of d ''projects'' = Some v \<longrightarrow>
              list_projects constants h self =
                ([GET url_projects None], Inr v)))
 \<and> (build_url h self (LIST_SPIDERS_ENDPOINT constants) = Inr url_spiders
      \<and> respond (client self) (auth (client self))
            (GET url_spiders (Some [(''project'', project)])) = Inr body
    \<longrightarrow> list_spiders constants h self project =
          ([GET url_spiders (Some [(''project'', project)])], getitem body ''spiders'')
        \<and> (\<forall>d v. body = PDict d \<and> map_of d ''spiders'' = Some v \<longrightarrow>
              list_spiders constants h self project =
                ([GET url_spiders (Some [(''project'', project)])], Inr v)))
 \<and> (build_url h self (LIST_VERSIONS_ENDPOINT constants) = Inr url_versions
      \<and> respond (client self) (auth (client self))
            (GET url_versions (Some [(''project'', project)])) = Inr body
    \<longrightarrow> list_versions constants h self project =
          ([GET url_versions (Some [(''project'', project)])], getitem body ''versions'')
        \<and> (\<forall>d v. body = PDict d \<and> map_of d ''versions'' = Some v \<longrightarrow>
              list_versions constants h self project =
                ([GET url_versions (Some [(''project'', project)])], Inr v)))
 \<and> (build_url h self (LIST_JOBS_ENDPOINT constants) = Inr url_jobs
      \<and> respond (client self) (auth (client self))
            (GET url_jobs (Some [(''project'', project)])) = Inr body
    \<longrightarrow> list_jobs constants h self project =
          ([GET url_jobs (Some [(''project'', project)])], Inr body))"
proof -

  have c0: "(build_url h self (LIST_PROJECTS_ENDPOINT constants) = Inr url_projects
          \<and> respond (client self) (auth (client self))
                (GET url_projects None) = Inr body
        \<longrightarrow> list_projects constants h self =
              ([GET url_projects None], getitem body ''projects'')
            \<and> (\<forall>d v. body = PDict d \<and> map_of d ''projects'' = Some v \<longrightarrow>
                  list_projects constants h self =
                    ([GET url_projects None], Inr v)))"
    by (auto simp: list_projects_outcome)

  have c1: "(build_url h self (LIST_SPIDERS_ENDPOINT constants) = Inr url_spiders
          \<and> respond (client self) (auth (client self))
                (GET url_spiders (Some [(''project'', project)])) = Inr body
        \<longrightarrow> list_spiders constants h self project =
              ([GET url_spiders (Some [(''project'', project)])], getitem body ''spiders'')
            \<and> (\<forall>d v. body = PDict d \<and> map_of d ''spiders'' = Some v \<longrightarrow>
                  list_spiders constants h self project =
                    ([GET url_spiders (Some [(''project'', project)])], Inr v)))"
    by (auto simp: list_spiders_outcome)

  have c2: "(build_url h self (LIST_VERSIONS_ENDPOINT constants) = Inr url_versions
          \<and> respond (client self) (auth (client self))
                (GET url_versions (Some [(''project'', project)])) = Inr body
        \<longrightarrow> list_versions constants h self project =
              ([GET url_versions (Some [(''project'', project)])], getitem body ''versions'')
            \<and> (\<forall>d v. body = PDict d \<and> map_of d ''versions'' = Some v \<longrightarrow>
                  list_versions constants h self project =
                    ([GET url_versions (Some [(''project'', project)])], Inr v)))"
    by (auto simp: list_versions_outcome)

  have c3: "(build_url h self (LIST_JOBS_ENDPOINT constants) = Inr url_jobs
          \<and> respond (client self) (auth (client self))
                (GET url_jobs (Some [(''project'', project)])) = Inr body
        \<longrightarrow> list_jobs constants h self project =
              ([GET url_jobs (Some [(''project'', project)])], Inr body))"
    by (auto simp: list_jobs_outcome)

  show ?thesis
    using c0 c1 c2 c3 by (intro conjI)
qed

text \<open>On the body \<open>listing0\<close> each of the three listings comes back in its own
  order, duplicates kept, and \<open>list_jobs\<close> returns the whole body.\<close>

theorem list_passthrough_witness:
  "list_projects consts0 heap0 (api0 listing0)
     = ([GET ''http://host:6800/listprojects.json'' None],
        Inr (PList [PStr ''b'', PStr ''a'', PStr ''b'']))
 \<and> list_spiders consts0 heap0 (api0 listing0) (PStr ''myproject'')
     = ([GET ''http://host:6800/listspiders.json'' (Some [(''project'', PStr ''myproject'')])],
        Inr (PList [PStr ''zeta'', PStr ''alpha'']))
 \<and> list_versions consts0 heap0 (api0 listing0) (PStr ''myproject'')
     = ([GET ''http://host:6800/listversions.json'' (Some [(''project'', PStr ''myproject'')])],
        Inr (PList [PStr ''r2'', PStr ''r10'', PStr ''r1'']))
 \<and> list_jobs consts0 heap0 (api0 listing0) (PStr ''myproject'')
     = ([GET ''http://host:6800/listjobs.json'' (Some [(''project'', PStr ''myproject'')])],
        Inr listing0)"
proof -
  have fields: "getitem listing0 ''projects'' = Inr (PList [PStr ''b'', PStr ''a'', PStr ''b''])"
    "getitem listing0 ''spiders'' = Inr (PList [PStr ''zeta'', PStr ''alpha''])"
    "getitem listing0 ''versions'' = Inr (PList [PStr ''r2'', PStr ''r10'', PStr ''r1''])"
    by (simp_all add: listing0_def)
  show ?thesis
    using list_passthrough [where constants = consts0 and h = heap0 and self = "api0 listing0"
        and body = listing0 and project = "PStr ''myproject''"
        and url_projects = "''http://host:6800/listprojects.json''"
        and url_spiders = "''http://host:6800/listspiders.json''"
        and url_versions = "''http://host:6800/listversions.json''"
        and url_jobs = "''http://host:6800/listjobs.json''"]
    by (simp add: build_url_api0 respond_client0 fields)
qed

section \<open>The delete operations\<close>

text \<open>
  C7. Whatever body the delegate answers with, \<open>delete_project\<close> and \<open>delete_version\<close>
  return \<open>True\<close>: the body is not looked at.
\<close>

theorem delete_returns_true:
  "(answers self (delete_project constants h self project) body
      \<longrightarrow> snd (delete_project constants h self project) = Inr (PBool True))
 \<and> (answers self (delete_version constants h self project version) body
      \<longrightarrow> snd (delete_version constants h self project version) = Inr (PBool True))"
  by (auto simp: answers_def delete_project_def delete_version_def client_post_def Let_def
           split: sum.splits list.splits)

text \<open>A body that reports an error still gives \<open>True\<close>.\<close>

theorem delete_returns_true_witness:
  "snd (delete_project consts0 heap0 (api0 (PDict [(''status'', PStr ''error'')])) (PStr ''p''))
     = Inr (PBool True)
 \<and> snd (delete_version consts0 heap0 (api0 (PDict [(''status'', PStr ''error'')])) (PStr ''p'')
          (PStr ''v1'')) = Inr (PBool True)"
proof -
  let ?body = "PDict [(''status'', PStr ''error'')]"
  have a1: "answers (api0 ?body) (delete_project consts0 heap0 (api0 ?body) (PStr ''p'')) ?body"
    by code_simp
  have a2: "answers (api0 ?body)
              (delete_version consts0 heap0 (api0 ?body) (PStr ''p'') (PStr ''v1'')) ?body"
    by code_simp
  show ?thesis
    using delete_returns_true [where self = "api0 ?body" and constants = consts0 and h = heap0
        and project = "PStr ''p''" and body = "?body" and version = "PStr ''v1''"] a1 a2
    by blast
qed

section \<open>Missing fields\<close>

text \<open>
  C8. When the body that the delegate answers the request with lacks the field an
  operation reads (\<open>spiders\<close> in \<open>add_version\<close> and \<open>list_spiders\<close>, \<open>prevstate\<close> in
  \<open>cancel\<close>, \<open>projects\<close> in \<open>list_projects\<close>, \<open>versions\<close> in \<open>list_versions\<close>,
  \<open>jobid\<close> in \<open>schedule\<close>), the operation raises the error of the lookup, as it
  is: the \<open>KeyError\<close> of the field for a mapping without it, and the \<open>TypeError\<close>
  of the subscript for a body that is no mapping.
\<close>

theorem field_missing_raises_keyerror:
  "(build_url h self (ADD_VERSION_ENDPOINT constants) = Inr url_add
      \<and> respond (client self) (auth (client self))
            (POST url_add [(''project'', project), (''version'', version)] (Some [(''egg'', egg)])) = Inr body
    \<longrightarrow> (\<forall>d. body = PDict d \<and> map_of d ''spiders'' = None \<longrightarrow>
            add_version constants h self project version egg =
              ([POST url_add [(''project'', project), (''version'', version)] (Some [(''egg'', egg)])], Inl (KeyError ''spiders'')))
        \<and> ((\<forall>d. body \<noteq> PDict d) \<longrightarrow>
            add_version constants h self project version egg =
              ([POST url_add [(''project'', project), (''version'', version)] (Some [(''egg'', egg)])], Inl TypeError)))
 \<and> (build_url h self (CANCEL_ENDPOINT constants) = Inr url_cancel
      \<and> respond (client self) (auth (client self))
            (POST url_cancel [(''project'', project), (''job'', job)] None) = Inr body
    \<longrightarrow> (\<forall>d. body = PDict d \<and> map_of d ''prevstate'' = None \<longrightarrow>
            cancel constants h self project job =
              ([POST url_cancel [(''project'', project), (''job'', job)] None], Inl (KeyError ''prevstate'')))
        \<and> ((\<forall>d. body \<noteq> PDict d) \<longrightarrow>
            cancel constants h self project job =
              ([POST url_cancel [(''project'', project), (''job'', job)] None], Inl TypeError)))
 \<and> (build_url h self (LIST_PROJECTS_ENDPOINT constants) = Inr url_projects
      \<and> respond (client self) (auth (client self))
            (GET url_projects None) = Inr body
    \<longrightarrow> (\<forall>d. body = PDict d \<and> map_of d ''projects'' = None \<longrightarrow>
            list_projects constants h self =
              ([GET url_projects None], Inl (KeyError ''projects'')))
        \<and> ((\<forall>d. body \<noteq> PDict d) \<longrightarrow>
            list_projects constants h self =
              ([GET url_projects None], Inl TypeError)))
 \<and> (build_url h self (LIST_SPIDERS_ENDPOINT constants) = Inr url_spiders
      \<and> respond (client self) (auth (client self))
            (GET url_spiders (Some [(''project'', project)])) = Inr body
    \<longrightarrow> (\<forall>d. body = PDict d \<and> map_of d ''spiders'' = None \<longrightarrow>
            list_spiders constants h self project =
              ([GET url_spiders (Some [(''project'', project)])], Inl (KeyError ''spiders'')))
        \<and> ((\<forall>d. body \<noteq> PDict d) \<longrightarrow>
            list_spiders constants h self project =
              ([GET url_spiders (Some [(''project'', project)])], Inl TypeError)))
 \<and> (build_url h self (LIST_VERSIONS_ENDPOINT constants) = Inr url_versions
      \<and> respond (client self) (auth (client self))
            (GET url_versions (Some [(''project'', project)])) = Inr body
    \<longrightarrow> (\<forall>d. body = PDict d \<and> map_of d ''versions'' = None \<longrightarrow>
            list_versions constants h self project =
              ([GET url_versions (Some [(''project'', project)])], Inl (KeyError ''versions'')))
        \<and> ((\<forall>d. body \<noteq> PDict d) \<longrightarrow>
            list_versions constants h self project =
              ([GET url_versions (Some [(''project'', project)])], Inl TypeError)))
 \<and> (build_url h self (SCHEDULE_ENDPOINT constants) = Inr url_schedule
      \<and> respond (client self) (auth (client self))
            (POST url_schedule (schedule_data project spider settings kwargs) None) = Inr body
    \<longrightarrow> (\<forall>d. body = PDict d \<and> map_of d ''jobid'' = None \<longrightarrow>
            schedule constants h self project spider settings kwargs =
              ([POST url_schedule (schedule_data project spider settings kwargs) None], Inl (KeyError ''jobid'')))
        \<and> ((\<forall>d. body \<noteq> PDict d) \<longrightarrow>
            schedule constants h self project spider settings kwargs =
              ([POST url_schedule (schedule_data project spider settings kwargs) None], Inl TypeError)))"
proof -

  have c0: "(build_url h self (ADD_VERSION_ENDPOINT constants) = Inr url_add
          \<and> respond (client self) (auth (client self))
                (POST url_add [(''project'', project), (''version'', version)] (Some [(''egg'', egg)])) = Inr body
        \<longrightarrow> (\<forall>d. body = PDict d \<and> map_of d ''spiders'' = None \<longrightarrow>
                add_version constants h self project version egg =
                  ([POST url_add [(''project'', project), (''version'', version)] (Some [(''egg'', egg)])], Inl (KeyError ''spiders'')))
            \<and> ((\<forall>d. body \<noteq> PDict d) \<longrightarrow>
                add_version constants h self project version egg =
                  ([POST url_add [(''project'', project), (''version'', version)] (Some [(''egg'', egg)])], Inl TypeError)))"
    by (auto simp: add_version_outcome getitem_not_mapping)

  have c1: "(build_url h self (CANCEL_ENDPOINT constants) = Inr url_cancel
          \<and> respond (client self) (auth (client self))
                (POST url_cancel [(''project'', project), (''job'', job)] None) = Inr body
        \<longrightarrow> (\<forall>d. body = PDict d \<and> map_of d ''prevstate'' = None \<longrightarrow>
                cancel constants h self project job =
                  ([POST url_cancel [(''project'', project), (''job'', job)] None], Inl (KeyError ''prevstate'')))
            \<and> ((\<forall>d. body \<noteq> PDict d) \<longrightarrow>
                cancel constants h self project job =
                  ([POST url_cancel [(''project'', project), (''job'', job)] None], Inl TypeError)))"
    by (auto simp: cancel_outcome getitem_not_mapping)

  have c2: "(build_url h self (LIST_PROJECTS_ENDPOINT constants) = Inr url_projects
          \<and> respond (client self) (auth (client self))
                (GET url_projects None) = Inr body
        \<longrightarrow> (\<forall>d. body = PDict d \<and> map_of d ''projects'' = None \<longrightarrow>
                list_projects constants h self =
                  ([GET url_projects None], Inl (KeyError ''projects'')))
            \<and> ((\<forall>d. body \<noteq> PDict d) \<longrightarrow>
                list_projects constants h self =
                  ([GET url_projects None], Inl TypeError)))"
    by (auto simp: list_projects_outcome getitem_not_mapping)

  have c3: "(build_url h self (LIST_SPIDERS_ENDPOINT constants) = Inr url_spiders
          \<and> respond (client self) (auth (client self))
                (GET url_spiders (Some [(''project'', project)])) = Inr body
        \<longrightarrow> (\<forall>d. body = PDict d \<and> map_of d ''spiders'' = None \<longrightarrow>
                list_spiders constants h self project =
                  ([GET url_spiders (Some [(''project'', project)])], Inl (KeyError ''spiders'')))
            \<and> ((\<forall>d. body \<noteq> PDict d) \<longrightarrow>
                list_spiders constants h self project =
                  ([GET url_spiders (Some [(''project'', project)])], Inl TypeError)))"
    by (auto simp: list_spiders_outcome getitem_not_mapping)

  have c4: "(build_url h self (LIST_VERSIONS_ENDPOINT constants) = Inr url_versions
          \<and> respond (client self) (auth (client self))
                (GET url_versions (Some [(''project'', project)])) = Inr body
        \<longrightarrow> (\<forall>d. body = PDict d \<and> map_of d ''versions'' = None \<longrightarrow>
                list_versions constants h self project =
                  ([GET url_versions (Some [(''project'', project)])], Inl (KeyError ''versions'')))
            \<and> ((\<forall>d. body \<noteq> PDict d) \<longrightarrow>
                list_versions constants h self project =
                  ([GET url_versions (Some [(''project'', project)])], Inl TypeError)))"
    by (auto simp: list_versions_outcome getitem_not_mapping)

  have c5: "(build_url h self (SCHEDULE_ENDPOINT constants) = Inr url_schedule
          \<and> respond (client self) (auth (client self))
                (POST url_schedule (schedule_data project spider settings kwargs) None) = Inr body
        \<longrightarrow> (\<forall>d. body = PDict d \<and> map_of d ''jobid'' = None \<longrightarrow>
                schedule constants h self project spider settings kwargs =
                  ([POST url_schedule (schedule_data project spider settings kwargs) None], Inl (KeyError ''jobid'')))
            \<and> ((\<forall>d. body \<noteq> PDict d) \<longrightarrow>
                schedule constants h self project spider settings kwargs =
                  ([POST url_schedule (schedule_data project spider settings kwargs) None], Inl TypeError)))"
    by (auto simp: schedule_outcome getitem_not_mapping)

  show ?thesis
    using c0 c1 c2 c3 c4 c5 by (intro conjI)
qed

text \<open>A body that holds only \<open>status\<close> makes each of the six operations raise
  \<open>KeyError\<close> for its field, after the one request; a body that is a plain string
  makes \<open>list_projects\<close> raise \<open>TypeError\<close>.\<close>

theorem field_missing_raises_keyerror_witness:
  "add_version consts0 heap0 (api0 (PDict [(''status'', PStr ''error'')]))
       (PStr ''myproject'') (PStr ''r1'') (PStr ''egg'')
     = ([POST ''http://host:6800/addversion.json''
           [(''project'', PStr ''myproject''), (''version'', PStr ''r1'')]
           (Some [(''egg'', PStr ''egg'')])], Inl (KeyError ''spiders''))
 \<and> cancel consts0 heap0 (api0 (PDict [(''status'', PStr ''error'')]))
       (PStr ''myproject'') (PStr ''job1'')
     = ([POST ''http://host:6800/cancel.json''
           [(''project'', PStr ''myproject''), (''job'', PStr ''job1'')] None],
        Inl (KeyError ''prevstate''))
 \<and> list_projects consts0 heap0 (api0 (PDict [(''status'', PStr ''error'')]))
     = ([GET ''http://host:6800/listprojects.json'' None], Inl (KeyError ''projects''))
 \<and> list_spiders consts0 heap0 (api0 (PDict [(''status'', PStr ''error'')])) (PStr ''myproject'')
     = ([GET ''http://host:6800/listspiders.json'' (Some [(''project'', PStr ''myproject'')])],
        Inl (KeyError ''spiders''))
 \<and> list_versions consts0 heap0 (api0 (PDict [(''status'', PStr ''error'')])) (PStr ''myproject'')
     = ([GET ''http://host:6800/listversions.json'' (Some [(''project'', PStr ''myproject'')])],
        Inl (KeyError ''versions''))
 \<and> schedule consts0 heap0 (api0 (PDict [(''status'', PStr ''error'')]))
       (PStr ''myproject'') (PStr ''somespider'') None []
     = ([POST ''http://host:6800/schedule.json''
           [(''project'', PStr ''myproject''), (''spider'', PStr ''somespider'')] None],
        Inl (KeyError ''jobid''))
 \<and> list_projects consts0 heap0 (api0 (PStr ''Bad Gateway''))
     = ([GET ''http://host:6800/listprojects.json'' None], Inl TypeError)"
proof -
  have data: "schedule_data (PStr ''myproject'') (PStr ''somespider'') None []
                = [(''project'', PStr ''myproject''), (''spider'', PStr ''somespider'')]"
    by (simp add: schedule_data_def dict_update_def)
  show ?thesis
    using field_missing_raises_keyerror [where constants = consts0 and h = heap0
        and self = "api0 (PDict [(''status'', PStr ''error'')])"
        and body = "PDict [(''status'', PStr ''error'')]"
        and project = "PStr ''myproject''" and version = "PStr ''r1''" and egg = "PStr ''egg''"
        and job = "PStr ''job1''" and spider = "PStr ''somespider''" and settings = None
        and kwargs = "[]"
        and url_add = "''http://host:6800/addversion.json''"
        and url_cancel = "''http://host:6800/cancel.json''"
        and url_projects = "''http://host:6800/listprojects.json''"
        and url_spiders = "''http://host:6800/listspiders.json''"
        and url_versions = "''http://host:6800/listversions.json''"
        and url_schedule = "''http://host:6800/schedule.json''"]
      field_missing_raises_keyerror [where constants = consts0 and h = heap0
        and self = "api0 (PStr ''Bad Gateway'')" and body = "PStr ''Bad Gateway''"
        and url_projects = "''http://host:6800/listprojects.json''"]
    by (simp add: build_url_api0 build_url_schedule0 respond_client0 data)
qed

section \<open>URL resolution\<close>

text \<open>
  C9. For an endpoint name that the endpoint map holds, URL resolution returns the
  join of the target and the endpoint's path; for the target \<open>http://host:6800\<close> and
  the path \<open>listjobs.json\<close> this is \<open>http://host:6800/listjobs.json\<close>.
\<close>

theorem build_url_joins:
  "(map_of (cells h (endpoints self)) endpoint = Some path \<longrightarrow>
      build_url h self endpoint = Inr (urljoin (target self) path))
 \<and> (target self = ''http://host:6800''
      \<and> map_of (cells h (endpoints self)) endpoint = Some ''listjobs.json'' \<longrightarrow>
      build_url h self endpoint = Inr ''http://host:6800/listjobs.json'')"
proof -
  have ex: "urljoin ''http://host:6800'' ''listjobs.json'' = ''http://host:6800/listjobs.json''"
    by code_simp
  show ?thesis
    by (simp add: build_url_def ex)
qed

text \<open>The instance \<open>api0\<close> has that target and that path for \<open>list_jobs\<close>.\<close>

theorem build_url_joins_witness:
  "build_url heap0 (api0 PNone) ''list_jobs'' = Inr ''http://host:6800/listjobs.json''"
proof -
  have t: "target (api0 PNone) = ''http://host:6800''"
    by (simp add: api0_def)
  have p: "map_of (cells heap0 (endpoints (api0 PNone))) ''list_jobs'' = Some ''listjobs.json''"
    by (simp add: api0_def heap0_def defaults0_def)
  show ?thesis
    using build_url_joins [of heap0 "api0 PNone" "''list_jobs''" "''listjobs.json''"] t p
    by blast
qed

section \<open>schedule: keywords named like parameters\<close>

text \<open>
  C10, as the claim states it, fails: an extra keyword named \<open>project\<close> does not
  replace the positional value in the payload. The call
  \<^verbatim>\<open>schedule('myproject', 'somespider', project='other')\<close> gives the parameter
  \<open>project\<close> two values; it raises \<open>TypeError\<close> when the arguments are bound, and no
  request is sent.
\<close>

theorem schedule_call_project_keyword_counterexample:
  "schedule_call consts0 heap0 (api0 (PDict [(''jobid'', PStr ''6487ec79947edab326d6db28a2d86511'')]))
     (PStr ''myproject'') (PStr ''somespider'') None [(''project'', PStr ''other'')]
     = ([], Inl TypeError)"
  by code_simp

text \<open>
  C10, amended. A call of \<open>schedule\<close> that passes \<open>project\<close> or \<open>spider\<close> once more
  as a keyword raises \<open>TypeError\<close> before the body runs and sends nothing. In every
  call whose keywords are not named like a parameter, the body runs on these
  keywords; they are merged into the form data after \<open>project\<close> and \<open>spider\<close> are
  set, so the form data starts with the two positional values, unchanged.
\<close>

theorem schedule_call_keeps_positional:
  "(''project'' \<in> fst ` set kw \<or> ''spider'' \<in> fst ` set kw \<longrightarrow>
      schedule_call constants h self project spider settings kw = ([], Inl TypeError))
 \<and> ((\<forall>k \<in> fst ` set kw. k \<notin> set [''self'', ''project'', ''spider'', ''settings''])
      \<and> build_url h self (SCHEDULE_ENDPOINT constants) = Inr url \<longrightarrow>
      schedule_call constants h self project spider settings kw
        = schedule constants h self project spider settings kw
      \<and> (\<exists>rest. fst (schedule_call constants h self project spider settings kw) =
                 [POST url ([(''project'', project), (''spider'', spider)] @ rest) None]))"
proof -
  let ?clash = "list_ex (\<lambda>(k, v). k \<in> set [''self'', ''project'', ''spider'', ''settings'']) kw"
  have clash: "?clash" if "''project'' \<in> fst ` set kw \<or> ''spider'' \<in> fst ` set kw"
    using that by (auto simp: list_ex_iff)
  have ok: "schedule_call constants h self project spider settings kw
              = schedule constants h self project spider settings kw
            \<and> (\<exists>rest. fst (schedule_call constants h self project spider settings kw) =
                 [POST url ([(''project'', project), (''spider'', spider)] @ rest) None])"
    if keys: "\<forall>k \<in> fst ` set kw. k \<notin> set [''self'', ''project'', ''spider'', ''settings'']"
      and url: "build_url h self (SCHEDULE_ENDPOINT constants) = Inr url"
  proof -
    from keys have nc: "\<not> ?clash"
      by (force simp: list_ex_iff)
    from keys have fresh: "\<forall>k \<in> fst ` set kw. k \<noteq> ''project'' \<and> k \<noteq> ''spider''"
      by auto
    let ?base = "[(''project'', project), (''spider'', spider)]"
    have pre: "dict_update ?base kw = ?base @ dict_update [] kw"
      by (rule schedule_data_prefix [OF fresh])
    have upd: "AList.update ''setting'' x ((''project'', project) # (''spider'', spider) # r) =
                 (''project'', project) # (''spider'', spider) # AList.update ''setting'' x r" for x r
      by simp
    have same: "schedule_call constants h self project spider settings kw
                  = schedule constants h self project spider settings kw"
      using nc by (simp add: schedule_call_def)
    have "\<exists>rest. fst (schedule constants h self project spider settings kw) =
                 [POST url ([(''project'', project), (''spider'', spider)] @ rest) None]"
      using schedule_request(1) [OF url, of project spider settings kw]
      by (cases settings) (auto simp: pre upd Let_def simp del: AList.update.simps)
    with same show ?thesis by simp
  qed
  have raised: "schedule_call constants h self project spider settings kw = ([], Inl TypeError)"
    if "''project'' \<in> fst ` set kw \<or> ''spider'' \<in> fst ` set kw"
    using clash [OF that] by (simp add: schedule_call_def)
  show ?thesis
    using raised ok by blast
qed

text \<open>A keyword \<open>spider\<close> raises \<open>TypeError\<close>; with the keyword \<open>priority\<close> the
  payload starts with the positional \<open>project\<close> and \<open>spider\<close>.\<close>

theorem schedule_call_keeps_positional_witness:
  "schedule_call consts0 heap0 (api0 PNone) (PStr ''myproject'') (PStr ''somespider'') None
     [(''spider'', PStr ''other'')] = ([], Inl TypeError)
 \<and> (\<exists>rest. fst (schedule_call consts0 heap0 (api0 PNone) (PStr ''myproject'') (PStr ''somespider'')
                   None [(''priority'', PInt 5)])
       = [POST ''http://host:6800/schedule.json''
            ([(''project'', PStr ''myproject''), (''spider'', PStr ''somespider'')] @ rest) None])"
proof -
  have k1: "''project'' \<in> fst ` set [(''spider'', PStr ''other'')]
            \<or> ''spider'' \<in> fst ` set [(''spider'', PStr ''other'')]"
    by simp
  have k2: "\<forall>k \<in> fst ` set [(''priority'', PInt 5)].
              k \<notin> set [''self'', ''project'', ''spider'', ''settings'']"
    by simp
  show ?thesis
    using schedule_call_keeps_positional [where kw = "[(''spider'', PStr ''other'')]"
        and constants = consts0 and h = heap0 and self = "api0 PNone"
        and project = "PStr ''myproject''" and spider = "PStr ''somespider''" and settings = None]
      schedule_call_keeps_positional [where kw = "[(''priority'', PInt 5)]"
        and constants = consts0 and h = heap0 and self = "api0 PNone"
        and project = "PStr ''myproject''" and spider = "PStr ''somespider''" and settings = None
        and url = "''http://host:6800/schedule.json''"]
      k1 k2 build_url_schedule0 [of PNone]
    by blast
qed

end
